theory Spec2Isabelle
  imports Main "HOL-Library.Word" "HOL-Library.Sublist"
begin

section \<open>The book tracker dashboard (frontend/src/App.js)\<close>

text \<open>
  The repository's source is one React component, \<^verbatim>\<open>App\<close>. Its state lives in
  \<^verbatim>\<open>useState\<close> cells, its handlers are \<^verbatim>\<open>async\<close> arrow functions that call
  \<^verbatim>\<open>fetch\<close>, and its render function decides which handlers the user can reach.

  The embedding keeps that shape:
  \<^item> the \<^verbatim>\<open>useState\<close> cells are the fields of the record \<open>world\<close>, next to three logs
    of what the component did to the outside (every \<^verbatim>\<open>fetch\<close> call, every console
    line, every \<^verbatim>\<open>alert\<close>);
  \<^item> the outside (the server behind \<^verbatim>\<open>API_BASE_URL\<close>, the user's answer to
    \<^verbatim>\<open>window.confirm\<close>) is the record \<open>env\<close>;
  \<^item> a handler is a function from the world to an outcome and a new world, the outcome
    being \<open>Inl\<close> an exception or \<open>Inr\<close> a value, so that \<^verbatim>\<open>try\<close>/\<^verbatim>\<open>catch\<close>/\<^verbatim>\<open>finally\<close>
    are functions of the model and "no exception escapes" is a statement about it;
  \<^item> a handler runs from its first line to its last without another handler in
    between (what interleaves at an \<^verbatim>\<open>await\<close> is outside the model), and a state
    setter takes effect at once.
\<close>

subsection \<open>Strings\<close>

text \<open>
  A JavaScript string is a sequence of UTF-16 code units. \<open>js\<close> turns an ASCII literal
  of this theory into one.
\<close>

type_synonym js_string = "16 word list"

definition js :: "string \<Rightarrow> js_string" where
  "js s = map (\<lambda>c. of_char c) s"

subsection \<open>Data\<close>

text \<open>
  The objects the component reads and writes, with the fields it touches. Field names
  are the source's, behind a prefix per record (\<open>b_\<close> book, \<open>s_\<close> site, \<open>r_\<close> request,
  \<open>n_\<close> notification, \<open>l_\<close> listing, \<open>nb_\<close> the form's \<^verbatim>\<open>newBook\<close>, \<open>bd_\<close> the
  \<^verbatim>\<open>bookData\<close> payload, \<open>d_\<close> the debug result), since several objects share names.
  A timestamp is the string the server sent; \<^verbatim>\<open>null\<close> is \<open>None\<close>.
\<close>

record site =
  s_name :: js_string
  s_url :: js_string
  s_last_check :: "js_string option"
  s_listings_found :: int

record book =
  b_id :: js_string
  b_title :: js_string
  b_author :: js_string
  b_sites :: "site list"
  b_last_checked :: "js_string option"
  b_is_active :: bool

record notification =
  n_id :: js_string
  n_book_title :: js_string
  n_message :: js_string
  n_listing_url :: js_string
  n_read :: bool
  n_created_at :: js_string

record listing =
  l_url :: js_string
  l_title :: js_string
  l_site_name :: js_string
  l_price :: js_string
  l_found_at :: js_string

record settings =
  check_interval_hours :: int

record debug_result =
  d_site :: js_string
  d_listings_found :: int

text \<open>
  \<^verbatim>\<open>newBook.sites\<close> is an object from site name to checkbox state; \<^verbatim>\<open>Object.entries\<close>
  reads it in insertion order, so it is an association list.
\<close>

record new_book =
  nb_title :: js_string
  nb_author :: js_string
  nb_sites :: "(js_string \<times> bool) list"
  nb_enable_google_search :: bool
  nb_custom_sites :: "js_string list"

record book_data =
  bd_title :: js_string
  bd_author :: js_string
  bd_sites :: "site list"
  bd_custom_sites :: "js_string list"
  bd_enable_google_search :: bool
  bd_is_active :: bool

subsection \<open>Requests and responses\<close>

datatype http_method = GET | POST | PUT | DELETE

text \<open>
  The argument of \<^verbatim>\<open>JSON.stringify\<close> in a request body: \<^verbatim>\<open>bookData\<close> (line 107) or
  \<^verbatim>\<open>{ url: ... }\<close> (lines 169 and 187).
\<close>

datatype payload = BookData book_data | UrlData js_string

record request =
  r_method :: http_method
  r_url :: js_string
  r_headers :: "(string \<times> string) list"
  r_body :: "payload option"

text \<open>
  What \<^verbatim>\<open>fetch\<close> resolves to: \<^verbatim>\<open>response.ok\<close>, and what \<^verbatim>\<open>response.json()\<close> gives,
  \<open>None\<close> when the body does not parse. An endpoint maps the requests made so far
  and the request at hand to a response, or to \<open>None\<close> when the promise rejects
  (the network is down, the server is unreachable).
\<close>

datatype 'a response = Response (ok: bool) (json_body: "'a option")

type_synonym 'a endpoint = "request list \<Rightarrow> request \<Rightarrow> 'a response option"

datatype exn =
  NetworkError
  | ParseError
  | ReferenceError string
  | URIError

text \<open>
  The outside. Each endpoint answers with data of its own shape; the responses to
  POST, PUT and DELETE are read for \<^verbatim>\<open>ok\<close> only, so their body is \<open>unit\<close>.
  \<open>window_confirm\<close> is the user's answer to the one dialog the component opens
  (line 129). \<^verbatim>\<open>encodeURIComponent\<close> is the platform's; it throws on a lone surrogate.
\<close>

record env =
  API_BASE_URL :: js_string
  books_endpoint :: "book list endpoint"
  notifications_endpoint :: "notification list endpoint"
  settings_endpoint :: "settings endpoint"
  listings_endpoint :: "listing list endpoint"
  debug_endpoint :: "debug_result endpoint"
  command_endpoint :: "unit endpoint"
  window_confirm :: bool
  encodeURIComponent :: "js_string \<Rightarrow> js_string option"

subsection \<open>The component's state\<close>

datatype tab = books_tab | notifications_tab | settings_tab

record world =
  books :: "book list"
  notifications :: "notification list"
  listings :: "js_string \<rightharpoonup> listing list"
  activeTab :: tab
  showAddBook :: bool
  loading :: bool
  settings :: settings
  newBook :: new_book
  customSiteInput :: js_string
  showAddSite :: "js_string \<rightharpoonup> bool"
  trace :: "request list"
  console :: "(string \<times> exn) list"
  alerts :: "debug_result list"

text \<open>The initial values of lines 7 to 29, with nothing done yet.\<close>

definition initial_newBook :: new_book where
  "initial_newBook =
     \<lparr>nb_title = [], nb_author = [],
      nb_sites = [(js ''nadirkitap'', True), (js ''kitantik'', True), (js ''halkkitabevi'', True)],
      nb_enable_google_search = True, nb_custom_sites = []\<rparr>"

definition initial_world :: world where
  "initial_world =
     \<lparr>books = [], notifications = [], listings = Map.empty, activeTab = books_tab,
      showAddBook = False, loading = False, settings = \<lparr>check_interval_hours = 6\<rparr>,
      newBook = initial_newBook, customSiteInput = [], showAddSite = Map.empty,
      trace = [], console = [], alerts = []\<rparr>"

text \<open>
  The state the user sees: the world without the three logs. Two worlds with the same
  \<open>ui_state\<close> agree on every \<^verbatim>\<open>useState\<close> cell.
\<close>

definition ui_state :: "world \<Rightarrow> world" where
  "ui_state w = w\<lparr>trace := [], console := [], alerts := []\<rparr>"

subsection \<open>Control flow: sequencing, exceptions, try/catch/finally\<close>

type_synonym 'a prog = "world \<Rightarrow> (exn + 'a) \<times> world"

definition return :: "'a \<Rightarrow> 'a prog" where
  "return x = (\<lambda>w. (Inr x, w))"

definition throw :: "exn \<Rightarrow> 'a prog" where
  "throw e = (\<lambda>w. (Inl e, w))"

definition bind :: "'a prog \<Rightarrow> ('a \<Rightarrow> 'b prog) \<Rightarrow> 'b prog" where
  "bind m k = (\<lambda>w. case m w of (Inl e, w') \<Rightarrow> (Inl e, w') | (Inr x, w') \<Rightarrow> k x w')"

definition try_catch :: "'a prog \<Rightarrow> (exn \<Rightarrow> 'a prog) \<Rightarrow> 'a prog" where
  "try_catch m h = (\<lambda>w. case m w of (Inl e, w') \<Rightarrow> h e w' | (Inr x, w') \<Rightarrow> (Inr x, w'))"

text \<open>
  \<^verbatim>\<open>finally\<close>: the block runs whatever the outcome, and the outcome stands unless the
  block itself throws.
\<close>

definition try_finally :: "'a prog \<Rightarrow> unit prog \<Rightarrow> 'a prog" where
  "try_finally m f =
     (\<lambda>w. case m w of (r, w') \<Rightarrow>
        (case f w' of (Inl e, w'') \<Rightarrow> (Inl e, w'') | (Inr _, w'') \<Rightarrow> (r, w'')))"

text \<open>The requests a program issues when run from \<open>w\<close>: what it appends to the trace.\<close>

definition issued :: "'a prog \<Rightarrow> world \<Rightarrow> request list" where
  "issued m w = drop (length (trace w)) (trace (snd (m w)))"

subsection \<open>Primitives\<close>

text \<open>
  \<^verbatim>\<open>await fetch(url, options)\<close>: the request goes out (it is logged) and the endpoint
  decides whether the promise resolves to a response or rejects.
\<close>

definition fetch :: "'a endpoint \<Rightarrow> request \<Rightarrow> 'a response prog" where
  "fetch endpoint req =
     (\<lambda>w. let w' = w\<lparr>trace := trace w @ [req]\<rparr> in
        case endpoint (trace w) req of
          None \<Rightarrow> (Inl NetworkError, w')
        | Some response \<Rightarrow> (Inr response, w'))"

definition json :: "'a response \<Rightarrow> 'a prog" where
  "json response = (case json_body response of None \<Rightarrow> throw ParseError | Some data \<Rightarrow> return data)"

definition console_error :: "string \<Rightarrow> exn \<Rightarrow> unit prog" where
  "console_error label error = (\<lambda>w. (Inr (), w\<lparr>console := console w @ [(label, error)]\<rparr>))"

definition setBooks :: "book list \<Rightarrow> unit prog" where
  "setBooks data = (\<lambda>w. (Inr (), w\<lparr>books := data\<rparr>))"

definition setNotifications :: "notification list \<Rightarrow> unit prog" where
  "setNotifications data = (\<lambda>w. (Inr (), w\<lparr>notifications := data\<rparr>))"

definition setSettings :: "settings \<Rightarrow> unit prog" where
  "setSettings data = (\<lambda>w. (Inr (), w\<lparr>settings := data\<rparr>))"

text \<open>\<^verbatim>\<open>setListings(prev => ({ ...prev, [bookId]: data }))\<close>\<close>

definition setListings :: "js_string \<Rightarrow> listing list \<Rightarrow> unit prog" where
  "setListings bookId data = (\<lambda>w. (Inr (), w\<lparr>listings := (listings w)(bookId \<mapsto> data)\<rparr>))"

definition setLoading :: "bool \<Rightarrow> unit prog" where
  "setLoading v = (\<lambda>w. (Inr (), w\<lparr>loading := v\<rparr>))"

definition setNewBook :: "new_book \<Rightarrow> unit prog" where
  "setNewBook v = (\<lambda>w. (Inr (), w\<lparr>newBook := v\<rparr>))"

definition setShowAddBook :: "bool \<Rightarrow> unit prog" where
  "setShowAddBook v = (\<lambda>w. (Inr (), w\<lparr>showAddBook := v\<rparr>))"

definition setActiveTab :: "tab \<Rightarrow> unit prog" where
  "setActiveTab v = (\<lambda>w. (Inr (), w\<lparr>activeTab := v\<rparr>))"

definition setCustomSiteInput :: "js_string \<Rightarrow> unit prog" where
  "setCustomSiteInput v = (\<lambda>w. (Inr (), w\<lparr>customSiteInput := v\<rparr>))"

definition setShowAddSite :: "(js_string \<rightharpoonup> bool) \<Rightarrow> unit prog" where
  "setShowAddSite v = (\<lambda>w. (Inr (), w\<lparr>showAddSite := v\<rparr>))"

subsection \<open>The four loaders (lines 41 to 79)\<close>

definition get_request :: "js_string \<Rightarrow> request" where
  "get_request u = \<lparr>r_method = GET, r_url = u, r_headers = [], r_body = None\<rparr>"

definition books_url :: "env \<Rightarrow> js_string" where
  "books_url env = API_BASE_URL env @ js ''/api/books''"

definition notifications_url :: "env \<Rightarrow> js_string" where
  "notifications_url env = API_BASE_URL env @ js ''/api/notifications''"

definition settings_url :: "env \<Rightarrow> js_string" where
  "settings_url env = API_BASE_URL env @ js ''/api/settings''"

definition listings_url :: "env \<Rightarrow> js_string \<Rightarrow> js_string" where
  "listings_url env bookId = API_BASE_URL env @ js ''/api/listings/'' @ bookId"

definition fetchBooks :: "env \<Rightarrow> unit prog" where
  "fetchBooks env =
     try_catch
       (bind (fetch (books_endpoint env) (get_request (books_url env))) (\<lambda>response.
        bind (json response) (\<lambda>data.
        setBooks data)))
       (\<lambda>error. console_error ''Error fetching books:'' error)"

definition fetchNotifications :: "env \<Rightarrow> unit prog" where
  "fetchNotifications env =
     try_catch
       (bind (fetch (notifications_endpoint env) (get_request (notifications_url env))) (\<lambda>response.
        bind (json response) (\<lambda>data.
        setNotifications data)))
       (\<lambda>error. console_error ''Error fetching notifications:'' error)"

definition fetchSettings :: "env \<Rightarrow> unit prog" where
  "fetchSettings env =
     try_catch
       (bind (fetch (settings_endpoint env) (get_request (settings_url env))) (\<lambda>response.
        bind (json response) (\<lambda>data.
        setSettings data)))
       (\<lambda>error. console_error ''Error fetching settings:'' error)"

definition fetchBookListings :: "env \<Rightarrow> js_string \<Rightarrow> unit prog" where
  "fetchBookListings env bookId =
     try_catch
       (bind (fetch (listings_endpoint env) (get_request (listings_url env bookId))) (\<lambda>response.
        bind (json response) (\<lambda>data.
        setListings bookId data)))
       (\<lambda>error. console_error ''Error fetching listings:'' error)"

text \<open>
  A load fails when its request fails (the promise of \<^verbatim>\<open>fetch\<close> rejects) or its
  parse fails (the promise of \<^verbatim>\<open>response.json()\<close> rejects).
\<close>

definition load_fails :: "'a endpoint \<Rightarrow> request \<Rightarrow> world \<Rightarrow> bool" where
  "load_fails endpoint req w =
     (case endpoint (trace w) req of None \<Rightarrow> True | Some response \<Rightarrow> json_body response = None)"

subsection \<open>Adding, deleting and checking a book (lines 81 to 151)\<close>

text \<open>
  \<^verbatim>\<open>Object.entries(newBook.sites).filter(([_, enabled]) => enabled).map(([siteName]) => ...)\<close>
\<close>

definition sitesToTrack :: "new_book \<Rightarrow> site list" where
  "sitesToTrack nb =
     map (\<lambda>(siteName, _).
            \<lparr>s_name = siteName, s_url = siteName @ js ''.com'',
             s_last_check = None, s_listings_found = 0\<rparr>)
         (filter (\<lambda>(_, enabled). enabled) (nb_sites nb))"

text \<open>
  \<^verbatim>\<open>newBook.custom_sites || []\<close> is \<^verbatim>\<open>newBook.custom_sites\<close>: the cell holds an array
  from its initial value on (lines 25, 117, and the spreads of lines 285 to 311 keep
  it), and an array is truthy, also when empty.
\<close>

definition bookData :: "new_book \<Rightarrow> book_data" where
  "bookData nb =
     \<lparr>bd_title = nb_title nb, bd_author = nb_author nb, bd_sites = sitesToTrack nb,
      bd_custom_sites = nb_custom_sites nb,
      bd_enable_google_search = nb_enable_google_search nb, bd_is_active = True\<rparr>"

definition json_headers :: "(string \<times> string) list" where
  "json_headers = [(''Content-Type'', ''application/json'')]"

definition addBook_request :: "env \<Rightarrow> new_book \<Rightarrow> request" where
  "addBook_request env nb =
     \<lparr>r_method = POST, r_url = books_url env, r_headers = json_headers,
      r_body = Some (BookData (bookData nb))\<rparr>"

text \<open>
  The handler reads \<^verbatim>\<open>newBook\<close> from the render it was created in: the world it
  starts from. \<^verbatim>\<open>e.preventDefault()\<close> only stops the browser's own form submission.
\<close>

definition addBook :: "env \<Rightarrow> unit prog" where
  "addBook env w =
     bind (setLoading True) (\<lambda>_.
       try_finally
         (try_catch
            (bind (fetch (command_endpoint env) (addBook_request env (newBook w))) (\<lambda>response.
               if ok response then
                 bind (fetchBooks env) (\<lambda>_.
                 bind (setNewBook initial_newBook) (\<lambda>_.
                 setShowAddBook False))
               else return ()))
            (\<lambda>error. console_error ''Error adding book:'' error))
         (setLoading False)) w"

definition book_url :: "env \<Rightarrow> js_string \<Rightarrow> js_string" where
  "book_url env bookId = API_BASE_URL env @ js ''/api/books/'' @ bookId"

definition deleteBook_request :: "env \<Rightarrow> js_string \<Rightarrow> request" where
  "deleteBook_request env bookId =
     \<lparr>r_method = DELETE, r_url = book_url env bookId, r_headers = [], r_body = None\<rparr>"

definition deleteBook :: "env \<Rightarrow> js_string \<Rightarrow> unit prog" where
  "deleteBook env bookId =
     (if \<not> window_confirm env then return ()
      else
        try_catch
          (bind (fetch (command_endpoint env) (deleteBook_request env bookId)) (\<lambda>_.
           fetchBooks env))
          (\<lambda>error. console_error ''Error deleting book:'' error))"

definition check_url :: "env \<Rightarrow> js_string \<Rightarrow> js_string" where
  "check_url env bookId = API_BASE_URL env @ js ''/api/books/'' @ bookId @ js ''/check''"

definition check_request :: "env \<Rightarrow> js_string \<Rightarrow> request" where
  "check_request env bookId =
     \<lparr>r_method = POST, r_url = check_url env bookId, r_headers = [], r_body = None\<rparr>"

definition manualCheckBook :: "env \<Rightarrow> js_string \<Rightarrow> unit prog" where
  "manualCheckBook env bookId =
     bind (setLoading True) (\<lambda>_.
       try_finally
         (try_catch
            (bind (fetch (command_endpoint env) (check_request env bookId)) (\<lambda>_.
             bind (fetchBooks env) (\<lambda>_.
             bind (fetchNotifications env) (\<lambda>_.
             fetchBookListings env bookId))))
            (\<lambda>error. console_error ''Error checking book:'' error))
         (setLoading False))"

subsection \<open>Marking a notification read (lines 153 to 160)\<close>

definition read_url :: "env \<Rightarrow> js_string \<Rightarrow> js_string" where
  "read_url env notificationId =
     API_BASE_URL env @ js ''/api/notifications/'' @ notificationId @ js ''/read''"

definition read_request :: "env \<Rightarrow> js_string \<Rightarrow> request" where
  "read_request env notificationId =
     \<lparr>r_method = PUT, r_url = read_url env notificationId, r_headers = [], r_body = None\<rparr>"

definition markNotificationRead :: "env \<Rightarrow> js_string \<Rightarrow> unit prog" where
  "markNotificationRead env notificationId =
     try_catch
       (bind (fetch (command_endpoint env) (read_request env notificationId)) (\<lambda>_.
        fetchNotifications env))
       (\<lambda>error. console_error ''Error marking notification as read:'' error)"

subsection \<open>Custom sites (lines 162 to 196)\<close>

text \<open>
  \<^verbatim>\<open>String.prototype.trim\<close> removes the leading and trailing code units that are
  white space or line terminators of ECMAScript: TAB, LF, VT, FF, CR, SP, NBSP,
  U+1680, U+2000 to U+200A, LS, PS, U+202F, U+205F, U+3000 and the BOM.
\<close>

definition is_whitespace :: "16 word \<Rightarrow> bool" where
  "is_whitespace c =
     (c = 0x9 \<or> c = 0xA \<or> c = 0xB \<or> c = 0xC \<or> c = 0xD \<or> c = 0x20 \<or> c = 0xA0 \<or>
      c = 0x1680 \<or> (0x2000 \<le> c \<and> c \<le> 0x200A) \<or> c = 0x2028 \<or> c = 0x2029 \<or>
      c = 0x202F \<or> c = 0x205F \<or> c = 0x3000 \<or> c = 0xFEFF)"

definition trim :: "js_string \<Rightarrow> js_string" where
  "trim s = rev (dropWhile is_whitespace (rev (dropWhile is_whitespace s)))"

definition add_site_url :: "env \<Rightarrow> js_string \<Rightarrow> js_string" where
  "add_site_url env bookId = API_BASE_URL env @ js ''/api/books/'' @ bookId @ js ''/add-site''"

definition remove_site_url :: "env \<Rightarrow> js_string \<Rightarrow> js_string" where
  "remove_site_url env bookId =
     API_BASE_URL env @ js ''/api/books/'' @ bookId @ js ''/remove-site''"

definition addCustomSite_request :: "env \<Rightarrow> js_string \<Rightarrow> js_string \<Rightarrow> request" where
  "addCustomSite_request env bookId input =
     \<lparr>r_method = POST, r_url = add_site_url env bookId, r_headers = json_headers,
      r_body = Some (UrlData input)\<rparr>"

definition removeCustomSite_request :: "env \<Rightarrow> js_string \<Rightarrow> js_string \<Rightarrow> request" where
  "removeCustomSite_request env bookId siteUrl =
     \<lparr>r_method = DELETE, r_url = remove_site_url env bookId, r_headers = json_headers,
      r_body = Some (UrlData siteUrl)\<rparr>"

text \<open>
  \<^verbatim>\<open>if (!customSiteInput.trim()) return;\<close>: the empty string is the one falsy string.
  \<^verbatim>\<open>customSiteInput\<close> and \<^verbatim>\<open>showAddSite\<close> are the values of the render the handler was
  created in.
\<close>

definition addCustomSite :: "env \<Rightarrow> js_string \<Rightarrow> unit prog" where
  "addCustomSite env bookId w =
     (if trim (customSiteInput w) = [] then return ()
      else
        try_catch
          (bind (fetch (command_endpoint env)
                   (addCustomSite_request env bookId (customSiteInput w))) (\<lambda>response.
             if ok response then
               bind (fetchBooks env) (\<lambda>_.
               bind (setCustomSiteInput []) (\<lambda>_.
               setShowAddSite ((showAddSite w)(bookId \<mapsto> False))))
             else return ()))
          (\<lambda>error. console_error ''Error adding custom site:'' error)) w"

definition removeCustomSite :: "env \<Rightarrow> js_string \<Rightarrow> js_string \<Rightarrow> unit prog" where
  "removeCustomSite env bookId siteUrl =
     try_catch
       (bind (fetch (command_endpoint env) (removeCustomSite_request env bookId siteUrl))
          (\<lambda>response. if ok response then fetchBooks env else return ()))
       (\<lambda>error. console_error ''Error removing custom site:'' error)"

subsection \<open>The scraping test (lines 198 to 207)\<close>

definition encode :: "env \<Rightarrow> js_string \<Rightarrow> js_string prog" where
  "encode env s = (case encodeURIComponent env s of None \<Rightarrow> throw URIError | Some t \<Rightarrow> return t)"

definition debug_url :: "env \<Rightarrow> js_string \<Rightarrow> js_string \<Rightarrow> js_string \<Rightarrow> js_string" where
  "debug_url env title author site =
     API_BASE_URL env @ js ''/api/debug/scrape-test?title='' @ title @ js ''&author='' @ author
       @ js ''&site='' @ site"

definition alert :: "debug_result \<Rightarrow> unit prog" where
  "alert data = (\<lambda>w. (Inr (), w\<lparr>alerts := alerts w @ [data]\<rparr>))"

text \<open>
  The third parameter defaults to \<^verbatim>\<open>'nadirkitap'\<close>: \<open>None\<close> is the call without it.
  \<^verbatim>\<open>console.log\<close> of the result is left out of the console log of the model, which
  keeps the error lines.
\<close>

definition debugScraping :: "env \<Rightarrow> js_string \<Rightarrow> js_string \<Rightarrow> js_string option \<Rightarrow> unit prog" where
  "debugScraping env title author site =
     try_catch
       (bind (encode env title) (\<lambda>t.
        bind (encode env author) (\<lambda>a.
        bind (fetch (debug_endpoint env)
                (get_request (debug_url env t a
                   (case site of None \<Rightarrow> js ''nadirkitap'' | Some s \<Rightarrow> s)))) (\<lambda>response.
        bind (json response) (\<lambda>data.
        alert data)))))
       (\<lambda>error. console_error ''Error testing scraping:'' error)"

subsection \<open>The unread badge (lines 209 and 242 to 246)\<close>

definition unreadCount :: "world \<Rightarrow> nat" where
  "unreadCount w = length (filter (\<lambda>n. \<not> n_read n) (notifications w))"

text \<open>
  \<^verbatim>\<open>{unreadCount > 0 && (<span ...>{unreadCount}</span>)}\<close>: the number the badge shows,
  \<open>None\<close> when React renders nothing.
\<close>

definition badge :: "world \<Rightarrow> nat option" where
  "badge w = (if unreadCount w > 0 then Some (unreadCount w) else None)"

subsection \<open>Events: what the render function wires to what (lines 211 to 520)\<close>

text \<open>
  One constructor per event handler of the JSX, with the value the event carries; the
  mount effect and its 30 second timer (lines 31 to 39); and the three functions the
  component defines but wires to nothing (\<open>CallAddCustomSite\<close>, \<open>CallRemoveCustomSite\<close>,
  \<open>CallDebugScraping\<close>), so that a statement about every event is a statement about
  every function of the file. The two links to a listing (lines 410 and 459) open a listing's own page
  in a new tab and call nothing of the component.
\<close>

datatype event =
  Mount
  | PollTick
  | ClickTab tab
  | ClickAddBook
  | ChangeTitle js_string
  | ChangeAuthor js_string
  | ChangeSite js_string bool
  | SubmitAddBook
  | ClickCancel
  | ClickCheck js_string
  | ClickDelete js_string
  | ClickShowListings js_string
  | ClickMarkRead js_string
  | ChangeInterval int
  | CallAddCustomSite js_string
  | CallRemoveCustomSite js_string js_string
  | CallDebugScraping js_string js_string "js_string option"

text \<open>\<^verbatim>\<open>{ ...obj, [key]: value }\<close> on an object read in insertion order.\<close>

definition object_set :: "('k \<times> 'v) list \<Rightarrow> 'k \<Rightarrow> 'v \<Rightarrow> ('k \<times> 'v) list" where
  "object_set obj key v =
     (if key \<in> set (map fst obj) then map (\<lambda>(k, x). if k = key then (k, v) else (k, x)) obj
      else obj @ [(key, v)])"

text \<open>The values of the \<^verbatim>\<open>option\<close> elements of lines 499 to 503.\<close>

definition interval_options :: "int list" where
  "interval_options = [1, 3, 6, 12, 24]"

text \<open>
  Line 496 calls \<^verbatim>\<open>updateSettings\<close>. The file declares no such name: it is not among
  the imports of lines 1 and 2, not a \<^verbatim>\<open>const\<close> of the component, not a parameter.
  Evaluating the identifier throws a \<^verbatim>\<open>ReferenceError\<close> before any argument is used,
  so the value the user picked goes nowhere.
\<close>

definition select_onChange :: "env \<Rightarrow> int \<Rightarrow> unit prog" where
  "select_onChange env v = throw (ReferenceError ''updateSettings'')"

text \<open>
  The mount effect starts the three loaders without awaiting them; their requests go
  out in the order of the calls, which is the order the model runs them in.
\<close>

definition handle :: "env \<Rightarrow> event \<Rightarrow> unit prog" where
  "handle env ev w =
     (case ev of
        Mount \<Rightarrow> bind (fetchBooks env) (\<lambda>_. bind (fetchNotifications env) (\<lambda>_. fetchSettings env))
      | PollTick \<Rightarrow> fetchNotifications env
      | ClickTab t \<Rightarrow> setActiveTab t
      | ClickAddBook \<Rightarrow> setShowAddBook True
      | ChangeTitle v \<Rightarrow> setNewBook ((newBook w)\<lparr>nb_title := v\<rparr>)
      | ChangeAuthor v \<Rightarrow> setNewBook ((newBook w)\<lparr>nb_author := v\<rparr>)
      | ChangeSite site checked \<Rightarrow>
          setNewBook ((newBook w)\<lparr>nb_sites := object_set (nb_sites (newBook w)) site checked\<rparr>)
      | SubmitAddBook \<Rightarrow> addBook env
      | ClickCancel \<Rightarrow> setShowAddBook False
      | ClickCheck bookId \<Rightarrow> manualCheckBook env bookId
      | ClickDelete bookId \<Rightarrow> deleteBook env bookId
      | ClickShowListings bookId \<Rightarrow> fetchBookListings env bookId
      | ClickMarkRead notificationId \<Rightarrow> markNotificationRead env notificationId
      | ChangeInterval v \<Rightarrow> select_onChange env v
      | CallAddCustomSite bookId \<Rightarrow> addCustomSite env bookId
      | CallRemoveCustomSite bookId siteUrl \<Rightarrow> removeCustomSite env bookId siteUrl
      | CallDebugScraping title author site \<Rightarrow> debugScraping env title author site) w"

text \<open>
  Which events the rendered page lets the user raise in a world: the element is on the
  page (its tab is the active one, its modal is open, its list item exists) and is not
  disabled. A form with an empty \<^verbatim>\<open>required\<close> input or a disabled submit button does
  not submit.
\<close>

definition offered :: "world \<Rightarrow> event \<Rightarrow> bool" where
  "offered w ev =
     (case ev of
        Mount \<Rightarrow> False
      | PollTick \<Rightarrow> False
      | ClickTab t \<Rightarrow> True
      | ClickAddBook \<Rightarrow> activeTab w = books_tab
      | ChangeTitle v \<Rightarrow> activeTab w = books_tab \<and> showAddBook w
      | ChangeAuthor v \<Rightarrow> activeTab w = books_tab \<and> showAddBook w
      | ChangeSite site checked \<Rightarrow>
          activeTab w = books_tab \<and> showAddBook w \<and> site \<in> set (map fst (nb_sites (newBook w)))
      | SubmitAddBook \<Rightarrow>
          activeTab w = books_tab \<and> showAddBook w \<and> \<not> loading w
          \<and> nb_title (newBook w) \<noteq> [] \<and> nb_author (newBook w) \<noteq> []
      | ClickCancel \<Rightarrow> activeTab w = books_tab \<and> showAddBook w
      | ClickCheck bookId \<Rightarrow>
          activeTab w = books_tab \<and> \<not> loading w \<and> bookId \<in> set (map b_id (books w))
      | ClickDelete bookId \<Rightarrow> activeTab w = books_tab \<and> bookId \<in> set (map b_id (books w))
      | ClickShowListings bookId \<Rightarrow>
          activeTab w = books_tab \<and> bookId \<in> set (map b_id (books w))
      | ClickMarkRead notificationId \<Rightarrow>
          activeTab w = notifications_tab
          \<and> notificationId \<in> set (map n_id (filter (\<lambda>n. \<not> n_read n) (notifications w)))
      | ChangeInterval v \<Rightarrow> activeTab w = settings_tab \<and> v \<in> set interval_options
      | CallAddCustomSite bookId \<Rightarrow> False
      | CallRemoveCustomSite bookId siteUrl \<Rightarrow> False
      | CallDebugScraping title author site \<Rightarrow> False)"

subsection \<open>Requests about notifications\<close>

text \<open>
  A request is about notifications when its URL, as the component writes it, starts
  with the address of the notification collection.
\<close>

definition about_notifications :: "env \<Rightarrow> request \<Rightarrow> bool" where
  "about_notifications env r = prefix (notifications_url env) (r_url r)"

subsection \<open>Concrete surroundings\<close>

text \<open>
  Three servers and a world to run the handlers in: one that cannot be reached, one
  that answers every request, and one whose book and notification answers do not parse.
\<close>

definition offline_env :: env where
  "offline_env =
     \<lparr>API_BASE_URL = js ''http://localhost:8001'',
      books_endpoint = (\<lambda>_ _. None), notifications_endpoint = (\<lambda>_ _. None),
      settings_endpoint = (\<lambda>_ _. None), listings_endpoint = (\<lambda>_ _. None),
      debug_endpoint = (\<lambda>_ _. None), command_endpoint = (\<lambda>_ _. None),
      window_confirm = True, encodeURIComponent = Some\<rparr>"

definition demo_book :: book where
  "demo_book =
     \<lparr>b_id = js ''b1'', b_title = js ''Tutunamayanlar'', b_author = js ''Oguz Atay'',
      b_sites = [\<lparr>s_name = js ''nadirkitap'', s_url = js ''nadirkitap.com'',
                  s_last_check = None, s_listings_found = 0\<rparr>],
      b_last_checked = None, b_is_active = True\<rparr>"

definition demo_notifications :: "notification list" where
  "demo_notifications =
     [\<lparr>n_id = js ''n1'', n_book_title = js ''Tutunamayanlar'', n_message = js ''new listing'',
       n_listing_url = js ''https://nadirkitap.com/1'', n_read = False,
       n_created_at = js ''2024-01-02T10:00:00''\<rparr>,
      \<lparr>n_id = js ''n2'', n_book_title = js ''Tutunamayanlar'', n_message = js ''new listing'',
       n_listing_url = js ''https://nadirkitap.com/2'', n_read = True,
       n_created_at = js ''2024-01-01T10:00:00''\<rparr>]"

definition demo_env :: env where
  "demo_env =
     \<lparr>API_BASE_URL = js ''http://localhost:8001'',
      books_endpoint = (\<lambda>_ _. Some (Response True (Some [demo_book]))),
      notifications_endpoint = (\<lambda>_ _. Some (Response True (Some demo_notifications))),
      settings_endpoint = (\<lambda>_ _. Some (Response True (Some \<lparr>check_interval_hours = 12\<rparr>))),
      listings_endpoint = (\<lambda>_ _. Some (Response True (Some []))),
      debug_endpoint = (\<lambda>_ _. Some (Response True (Some \<lparr>d_site = js ''nadirkitap'', d_listings_found = 0\<rparr>))),
      command_endpoint = (\<lambda>_ _. Some (Response True (Some ()))),
      window_confirm = True, encodeURIComponent = Some\<rparr>"

definition garbled_env :: env where
  "garbled_env = offline_env\<lparr>books_endpoint := (\<lambda>_ _. Some (Response False None)),
      notifications_endpoint := (\<lambda>_ _. Some (Response True None))\<rparr>"

definition demo_world :: world where
  "demo_world = initial_world\<lparr>books := [demo_book], notifications := demo_notifications\<rparr>"

text \<open>The add-book form filled in, with the second site unchecked.\<close>

definition demo_form :: new_book where
  "demo_form =
     \<lparr>nb_title = js ''Tutunamayanlar'', nb_author = js ''Oguz Atay'',
      nb_sites = [(js ''nadirkitap'', True), (js ''kitantik'', False), (js ''halkkitabevi'', True)],
      nb_enable_google_search = True, nb_custom_sites = []\<rparr>"

section \<open>The notification engine behind the check request\<close>

text \<open>
  The check request of the dashboard starts a check cycle on the server, and the
  notifications the dashboard lists are what that cycle's reconciliation created. The
  server is not among the sources, so this section follows the specification: its
  data model (section 3), its fingerprint contract (section 4.1) and its
  reconciliation algorithm (section 4.4).
\<close>

text \<open>
  Modelled from the spec: RawListing, the listing a source adapter returns (title
  text, price text, source URL, site name). The adapters are not among the sources.
\<close>

record raw_listing =
  rl_title :: string
  rl_price :: string
  rl_url :: string
  rl_site_name :: string

text \<open>
  Modelled from the spec: the Book of the tracking store, with the two attributes
  reconciliation reads (identity and title). The store is not among the sources.
\<close>

record tracked_book =
  tb_id :: string
  tb_title :: string

text \<open>
  Modelled from the spec: the Notification of the inbox (book id, denormalized book
  title, message text, listing URL, read flag). The inbox is not among the sources;
  the id and the creation time it assigns play no part in reconciliation.
\<close>

record inbox_notification =
  in_book_id :: string
  in_book_title :: string
  in_message :: string
  in_listing_url :: string
  in_read :: bool

text \<open>
  Modelled from the spec: the Site of a book, with its name, the fingerprint set of
  every listing ever seen for it and its cumulative \<^verbatim>\<open>listings_found\<close> counter. The
  type of fingerprint keys is left open.
\<close>

record 'f tracked_site =
  ts_name :: string
  ts_fingerprints :: "'f set"
  ts_listings_found :: nat

text \<open>
  Modelled from the spec: what reconciliation reads and writes, the site and the
  notification inbox.
\<close>

record 'f store =
  st_site :: "'f tracked_site"
  st_inbox :: "inbox_notification list"

text \<open>
  Modelled from the spec: the notification created for a new listing, unread, its
  message composed from the book and the listing by a function the spec leaves open.
\<close>

definition new_notification ::
  "(tracked_book \<Rightarrow> raw_listing \<Rightarrow> string) \<Rightarrow> tracked_book \<Rightarrow> raw_listing \<Rightarrow> inbox_notification" where
  "new_notification compose b l =
     \<lparr>in_book_id = tb_id b, in_book_title = tb_title b, in_message = compose b l,
      in_listing_url = rl_url l, in_read = False\<rparr>"

text \<open>
  Modelled from the spec: the loop of the Notification Engine's \<^verbatim>\<open>reconcile\<close>, which is
  not among the sources. For each listing in turn: when its fingerprint is in the
  site's set the listing is skipped; otherwise a notification is created and appended
  to the inbox, and the fingerprint is added to the set. The fingerprint function is a
  parameter: the spec fixes that it is a deterministic function of the listing.
\<close>

fun reconcile_each ::
  "(raw_listing \<Rightarrow> 'f) \<Rightarrow> (tracked_book \<Rightarrow> raw_listing \<Rightarrow> string) \<Rightarrow> tracked_book \<Rightarrow>
   'f store \<Rightarrow> raw_listing list \<Rightarrow> inbox_notification list \<times> 'f store" where
  "reconcile_each fingerprint compose b st [] = ([], st)"
| "reconcile_each fingerprint compose b st (l # ls) =
     (if fingerprint l \<in> ts_fingerprints (st_site st)
      then reconcile_each fingerprint compose b st ls
      else
        (case reconcile_each fingerprint compose b
                \<lparr>st_site = (st_site st)\<lparr>ts_fingerprints :=
                              insert (fingerprint l) (ts_fingerprints (st_site st))\<rparr>,
                 st_inbox = st_inbox st @ [new_notification compose b l]\<rparr> ls of
           (created, st') \<Rightarrow> (new_notification compose b l # created, st')))"

text \<open>
  Modelled from the spec: \<^verbatim>\<open>reconcile(Book, Site, RawListing[]) -> Notification[]\<close>
  of the Notification Engine, which is not among the sources: the loop, then the
  site's counter incremented by the number of new listings of this cycle.
\<close>

definition reconcile ::
  "(raw_listing \<Rightarrow> 'f) \<Rightarrow> (tracked_book \<Rightarrow> raw_listing \<Rightarrow> string) \<Rightarrow> tracked_book \<Rightarrow>
   'f store \<Rightarrow> raw_listing list \<Rightarrow> inbox_notification list \<times> 'f store" where
  "reconcile fingerprint compose b st ls =
     (case reconcile_each fingerprint compose b st ls of
        (created, st') \<Rightarrow>
          (created,
           st'\<lparr>st_site := (st_site st')\<lparr>ts_listings_found :=
                              ts_listings_found (st_site st') + length created\<rparr>\<rparr>))"

text \<open>A site with nothing seen yet and three listings of one book on it.\<close>

definition demo_listings :: "raw_listing list" where
  "demo_listings =
     [\<lparr>rl_title = ''Tutunamayanlar'', rl_price = ''120 TL'', rl_url = ''https://a.example/1'',
       rl_site_name = ''a''\<rparr>,
      \<lparr>rl_title = ''Tutunamayanlar 1. baski'', rl_price = ''900 TL'',
       rl_url = ''https://a.example/2'', rl_site_name = ''a''\<rparr>,
      \<lparr>rl_title = ''Tutunamayanlar'', rl_price = ''150 TL'', rl_url = ''https://a.example/3'',
       rl_site_name = ''a''\<rparr>]"

definition demo_store :: "string store" where
  "demo_store =
     \<lparr>st_site = \<lparr>ts_name = ''a'', ts_fingerprints = {}, ts_listings_found = 0\<rparr>, st_inbox = []\<rparr>"

definition demo_tracked_book :: tracked_book where
  "demo_tracked_book = \<lparr>tb_id = ''b1'', tb_title = ''Tutunamayanlar''\<rparr>"

section \<open>Theorems\<close>

subsection \<open>Running the handlers\<close>

text \<open>
  A loader always returns, and what it adds to the trace is its one request. With
  that, the requests of every other handler are computed from its definition.
\<close>

lemmas prog_defs = try_catch_def try_finally_def bind_def fetch_def json_def throw_def return_def
  console_error_def Let_def

lemmas setter_defs = setBooks_def setNotifications_def setSettings_def setListings_def
  setLoading_def setNewBook_def setShowAddBook_def setActiveTab_def setCustomSiteInput_def
  setShowAddSite_def

lemma fetchBooks_returns: "fst (fetchBooks env w) = Inr ()"
  by (simp add: fetchBooks_def prog_defs setBooks_def split: option.split)

lemma fetchNotifications_returns: "fst (fetchNotifications env w) = Inr ()"
  by (simp add: fetchNotifications_def prog_defs setNotifications_def split: option.split)

lemma fetchSettings_returns: "fst (fetchSettings env w) = Inr ()"
  by (simp add: fetchSettings_def prog_defs setSettings_def split: option.split)

lemma fetchBookListings_returns: "fst (fetchBookListings env bookId w) = Inr ()"
  by (simp add: fetchBookListings_def prog_defs setListings_def split: option.split)

lemma case_returns:
  "fst p = Inr () \<Longrightarrow>
   (case p of (Inl e, w') \<Rightarrow> f e w' | (Inr y, w') \<Rightarrow> g y w') = g () (snd p)"
  by (cases p) auto

lemma fetchBooks_trace: "trace (snd (fetchBooks env w)) = trace w @ [get_request (books_url env)]"
  by (simp add: fetchBooks_def prog_defs setBooks_def split: option.split)

lemma fetchNotifications_trace:
  "trace (snd (fetchNotifications env w)) = trace w @ [get_request (notifications_url env)]"
  by (simp add: fetchNotifications_def prog_defs setNotifications_def split: option.split)

lemma fetchSettings_trace:
  "trace (snd (fetchSettings env w)) = trace w @ [get_request (settings_url env)]"
  by (simp add: fetchSettings_def prog_defs setSettings_def split: option.split)

lemma fetchBookListings_trace:
  "trace (snd (fetchBookListings env bookId w)) = trace w @ [get_request (listings_url env bookId)]"
  by (simp add: fetchBookListings_def prog_defs setListings_def split: option.split)

lemmas loader_simps = case_returns fetchBooks_returns fetchNotifications_returns
  fetchSettings_returns fetchBookListings_returns fetchBooks_trace fetchNotifications_trace
  fetchSettings_trace fetchBookListings_trace

lemma issued_markNotificationRead:
  "issued (markNotificationRead env notificationId) w =
     (case command_endpoint env (trace w) (read_request env notificationId) of
        None \<Rightarrow> [read_request env notificationId]
      | Some _ \<Rightarrow> [read_request env notificationId, get_request (notifications_url env)])"
  by (simp add: issued_def markNotificationRead_def prog_defs loader_simps split: option.split)

lemma issued_manualCheckBook:
  "issued (manualCheckBook env bookId) w =
     (case command_endpoint env (trace w) (check_request env bookId) of
        None \<Rightarrow> [check_request env bookId]
      | Some _ \<Rightarrow> [check_request env bookId, get_request (books_url env),
           get_request (notifications_url env), get_request (listings_url env bookId)])"
  by (simp add: issued_def manualCheckBook_def prog_defs setter_defs loader_simps split: option.split)

lemma issued_deleteBook:
  "issued (deleteBook env bookId) w =
     (if window_confirm env then
        (case command_endpoint env (trace w) (deleteBook_request env bookId) of
           None \<Rightarrow> [deleteBook_request env bookId]
         | Some _ \<Rightarrow> [deleteBook_request env bookId, get_request (books_url env)])
      else [])"
  by (simp add: issued_def deleteBook_def prog_defs loader_simps split: option.split)

lemma issued_addBook:
  "issued (addBook env) w =
     (case command_endpoint env (trace w) (addBook_request env (newBook w)) of
        None \<Rightarrow> [addBook_request env (newBook w)]
      | Some response \<Rightarrow>
          if ok response then [addBook_request env (newBook w), get_request (books_url env)]
          else [addBook_request env (newBook w)])"
  by (simp add: issued_def addBook_def prog_defs setter_defs loader_simps split: option.split)

lemma issued_addCustomSite:
  "issued (addCustomSite env bookId) w =
     (if trim (customSiteInput w) = [] then []
      else
        (case command_endpoint env (trace w)
                (addCustomSite_request env bookId (customSiteInput w)) of
           None \<Rightarrow> [addCustomSite_request env bookId (customSiteInput w)]
         | Some response \<Rightarrow>
             if ok response
             then [addCustomSite_request env bookId (customSiteInput w), get_request (books_url env)]
             else [addCustomSite_request env bookId (customSiteInput w)]))"
  by (simp add: issued_def addCustomSite_def prog_defs setter_defs loader_simps split: option.split)

lemma issued_removeCustomSite:
  "issued (removeCustomSite env bookId siteUrl) w =
     (case command_endpoint env (trace w) (removeCustomSite_request env bookId siteUrl) of
        None \<Rightarrow> [removeCustomSite_request env bookId siteUrl]
      | Some response \<Rightarrow>
          if ok response
          then [removeCustomSite_request env bookId siteUrl, get_request (books_url env)]
          else [removeCustomSite_request env bookId siteUrl])"
  by (simp add: issued_def removeCustomSite_def prog_defs loader_simps split: option.split)

lemma issued_debugScraping:
  "set (issued (debugScraping env title author site) w) \<subseteq>
     {r. r_method r = GET \<and> (\<exists>t a s. r_url r = debug_url env t a s)}"
  by (auto simp add: issued_def debugScraping_def prog_defs encode_def alert_def get_request_def
      split: option.split)

lemma issued_loaders:
  "issued (fetchBooks env) w = [get_request (books_url env)]"
  "issued (fetchNotifications env) w = [get_request (notifications_url env)]"
  "issued (fetchSettings env) w = [get_request (settings_url env)]"
  "issued (fetchBookListings env bookId) w = [get_request (listings_url env bookId)]"
  by (simp_all add: issued_def loader_simps)

text \<open>
  Every handler returns normally whatever the server does, but for the change handler
  of the interval select.
\<close>

lemma handlers_return:
  "fst (handle env ev w) = (case ev of ChangeInterval v \<Rightarrow> Inl (ReferenceError ''updateSettings'') | _ \<Rightarrow> Inr ())"
  by (cases ev)
    (simp_all add: handle_def addBook_def manualCheckBook_def deleteBook_def
      markNotificationRead_def addCustomSite_def removeCustomSite_def debugScraping_def
      encode_def alert_def select_onChange_def prog_defs setter_defs loader_simps
      split: option.split)

subsection \<open>Failures of the loaders\<close>

lemma fetchBooks_fails:
  "load_fails (books_endpoint env) (get_request (books_url env)) w \<Longrightarrow>
   ui_state (snd (fetchBooks env w)) = ui_state w"
  by (simp add: load_fails_def ui_state_def fetchBooks_def prog_defs setBooks_def
      split: option.splits)

lemma fetchNotifications_fails:
  "load_fails (notifications_endpoint env) (get_request (notifications_url env)) w \<Longrightarrow>
   ui_state (snd (fetchNotifications env w)) = ui_state w"
  by (simp add: load_fails_def ui_state_def fetchNotifications_def prog_defs setNotifications_def
      split: option.splits)

lemma fetchSettings_fails:
  "load_fails (settings_endpoint env) (get_request (settings_url env)) w \<Longrightarrow>
   ui_state (snd (fetchSettings env w)) = ui_state w"
  by (simp add: load_fails_def ui_state_def fetchSettings_def prog_defs setSettings_def
      split: option.splits)

lemma fetchBookListings_fails:
  "load_fails (listings_endpoint env) (get_request (listings_url env bookId)) w \<Longrightarrow>
   ui_state (snd (fetchBookListings env bookId w)) = ui_state w"
  by (simp add: load_fails_def ui_state_def fetchBookListings_def prog_defs setListings_def
      split: option.splits)

text \<open>
  Claim C10. Each of the four loaders catches the failure of its own request and of
  its own parse: it returns normally whatever the server does, and when the request
  is rejected or the body does not parse, every state cell of the component (books,
  notifications, settings and listings among them) is what it was before.
\<close>

theorem loaders_contain_failures:
  "(fst (fetchBooks env w) = Inr ()
      \<and> (load_fails (books_endpoint env) (get_request (books_url env)) w \<longrightarrow>
           ui_state (snd (fetchBooks env w)) = ui_state w))
   \<and> (fst (fetchNotifications env w) = Inr ()
      \<and> (load_fails (notifications_endpoint env) (get_request (notifications_url env)) w \<longrightarrow>
           ui_state (snd (fetchNotifications env w)) = ui_state w))
   \<and> (fst (fetchSettings env w) = Inr ()
      \<and> (load_fails (settings_endpoint env) (get_request (settings_url env)) w \<longrightarrow>
           ui_state (snd (fetchSettings env w)) = ui_state w))
   \<and> (fst (fetchBookListings env bookId w) = Inr ()
      \<and> (load_fails (listings_endpoint env) (get_request (listings_url env bookId)) w \<longrightarrow>
           ui_state (snd (fetchBookListings env bookId w)) = ui_state w))"
  using fetchBooks_fails [of env w] fetchNotifications_fails [of env w]
    fetchSettings_fails [of env w] fetchBookListings_fails [of env bookId w]
  by (simp add: fetchBooks_returns fetchNotifications_returns fetchSettings_returns
      fetchBookListings_returns)

theorem loaders_contain_failures_witness:
  "load_fails (books_endpoint garbled_env) (get_request (books_url garbled_env)) demo_world
   \<and> load_fails (notifications_endpoint garbled_env)
       (get_request (notifications_url garbled_env)) demo_world
   \<and> load_fails (settings_endpoint garbled_env) (get_request (settings_url garbled_env)) demo_world
   \<and> load_fails (listings_endpoint garbled_env)
       (get_request (listings_url garbled_env (js ''b1''))) demo_world
   \<and> fst (fetchBooks garbled_env demo_world) = Inr ()
   \<and> ui_state (snd (fetchBooks garbled_env demo_world)) = ui_state demo_world
   \<and> ui_state (snd (fetchNotifications garbled_env demo_world)) = ui_state demo_world
   \<and> ui_state (snd (fetchSettings garbled_env demo_world)) = ui_state demo_world
   \<and> ui_state (snd (fetchBookListings garbled_env (js ''b1'') demo_world)) = ui_state demo_world"
proof -
  have f: "load_fails (books_endpoint garbled_env) (get_request (books_url garbled_env)) demo_world"
    "load_fails (notifications_endpoint garbled_env)
       (get_request (notifications_url garbled_env)) demo_world"
    "load_fails (settings_endpoint garbled_env) (get_request (settings_url garbled_env)) demo_world"
    "load_fails (listings_endpoint garbled_env)
       (get_request (listings_url garbled_env (js ''b1''))) demo_world"
    by (simp_all add: load_fails_def garbled_env_def offline_env_def)
  with loaders_contain_failures [of garbled_env demo_world "js ''b1''"] show ?thesis
    by blast
qed

lemma fetchBooks_succeeds:
  "books_endpoint env (trace w) (get_request (books_url env)) = Some (Response b (Some data)) \<Longrightarrow>
   books (snd (fetchBooks env w)) = data"
  by (simp add: fetchBooks_def prog_defs setBooks_def)

subsection \<open>Requests about notifications\<close>

lemma issued_handle:
  "issued (handle env ev) w =
     (case ev of
        Mount \<Rightarrow> [get_request (books_url env), get_request (notifications_url env),
                   get_request (settings_url env)]
      | PollTick \<Rightarrow> [get_request (notifications_url env)]
      | SubmitAddBook \<Rightarrow> issued (addBook env) w
      | ClickCheck bookId \<Rightarrow> issued (manualCheckBook env bookId) w
      | ClickDelete bookId \<Rightarrow> issued (deleteBook env bookId) w
      | ClickShowListings bookId \<Rightarrow> [get_request (listings_url env bookId)]
      | ClickMarkRead notificationId \<Rightarrow> issued (markNotificationRead env notificationId) w
      | CallAddCustomSite bookId \<Rightarrow> issued (addCustomSite env bookId) w
      | CallRemoveCustomSite bookId siteUrl \<Rightarrow> issued (removeCustomSite env bookId siteUrl) w
      | CallDebugScraping title author site \<Rightarrow> issued (debugScraping env title author site) w
      | _ \<Rightarrow> [])"
  by (cases ev)
    (simp_all add: issued_def handle_def bind_def loader_simps setter_defs select_onChange_def
      throw_def)

lemma not_about_notifications:
  "\<not> about_notifications env (get_request (books_url env))"
  "\<not> about_notifications env (get_request (settings_url env))"
  "\<not> about_notifications env (get_request (listings_url env bookId))"
  "\<not> about_notifications env (addBook_request env nb)"
  "\<not> about_notifications env (deleteBook_request env bookId)"
  "\<not> about_notifications env (check_request env bookId)"
  "\<not> about_notifications env (addCustomSite_request env bookId input)"
  "\<not> about_notifications env (removeCustomSite_request env bookId siteUrl)"
  "\<not> about_notifications env (get_request (debug_url env t a s))"
  by (simp_all add: about_notifications_def notifications_url_def books_url_def settings_url_def
      listings_url_def book_url_def check_url_def add_site_url_def remove_site_url_def
      debug_url_def get_request_def addBook_request_def deleteBook_request_def check_request_def
      addCustomSite_request_def removeCustomSite_request_def js_def)

text \<open>
  Claim C6. Whatever the event (every handler the page wires, the mount effect, the
  timer, and the functions wired to nothing), a request about notifications is either
  the GET of the list or the PUT that marks one notification read, raised by the
  mark-read button. No request about notifications has another method; none deletes.
\<close>

theorem only_mark_read_mutates_notifications:
  assumes "r \<in> set (issued (handle env ev) w)" and "about_notifications env r"
  shows "r_method r \<noteq> DELETE
         \<and> ((r = get_request (notifications_url env) \<and> r_method r = GET)
              \<or> (\<exists>notificationId. ev = ClickMarkRead notificationId
                    \<and> r = read_request env notificationId \<and> r_method r = PUT))"
proof (cases ev)
  case (CallDebugScraping title author site)
  with assms(1) obtain t a s where "r_method r = GET" and u: "r_url r = debug_url env t a s"
    using issued_debugScraping [of env title author site w] by (auto simp: issued_handle)
  with assms(2) not_about_notifications(9) [of env t a s] show ?thesis
    by (simp add: about_notifications_def get_request_def)
qed (use assms not_about_notifications in
    \<open>auto simp: issued_handle issued_addBook issued_manualCheckBook issued_deleteBook
       issued_markNotificationRead issued_addCustomSite issued_removeCustomSite
       get_request_def read_request_def
       split: option.splits if_splits\<close>)

theorem only_mark_read_mutates_notifications_witness:
  "read_request demo_env (js ''n1'')
     \<in> set (issued (handle demo_env (ClickMarkRead (js ''n1''))) demo_world)
   \<and> about_notifications demo_env (read_request demo_env (js ''n1''))
   \<and> r_method (read_request demo_env (js ''n1'')) \<noteq> DELETE
   \<and> r_method (read_request demo_env (js ''n1'')) = PUT"
proof -
  have 1: "read_request demo_env (js ''n1'')
     \<in> set (issued (handle demo_env (ClickMarkRead (js ''n1''))) demo_world)"
    by (simp add: issued_handle issued_markNotificationRead split: option.split)
  have 2: "about_notifications demo_env (read_request demo_env (js ''n1''))"
    by (simp add: about_notifications_def read_request_def read_url_def notifications_url_def
        js_def)
  from only_mark_read_mutates_notifications [OF 1 2] 1 2 show ?thesis
    by (simp add: read_request_def)
qed

subsection \<open>The unread badge\<close>

text \<open>
  Claim C9. For every notification list, \<^verbatim>\<open>unreadCount\<close> is the number of positions
  of the list whose notification has \<^verbatim>\<open>read\<close> false; the badge shows that number
  when it is greater than zero and is not rendered when it is zero.
\<close>

theorem badge_shows_unread_count:
  "unreadCount w = card {i. i < length (notifications w) \<and> n_read (notifications w ! i) = False}
   \<and> (badge w = Some k \<longleftrightarrow> k = unreadCount w \<and> 0 < k)
   \<and> (badge w = None \<longleftrightarrow> unreadCount w = 0)"
proof -
  have "unreadCount w
          = card {i. i < length (notifications w) \<and> n_read (notifications w ! i) = False}"
    by (simp add: unreadCount_def length_filter_conv_card)
  moreover have "badge w = Some k \<longleftrightarrow> k = unreadCount w \<and> 0 < k"
    by (auto simp: badge_def)
  moreover have "badge w = None \<longleftrightarrow> unreadCount w = 0"
    by (simp add: badge_def)
  ultimately show ?thesis by blast
qed

theorem badge_shows_unread_count_witness:
  "unreadCount demo_world = 1 \<and> badge demo_world = Some 1 \<and> badge initial_world = None
   \<and> card {i. i < length (notifications demo_world) \<and> n_read (notifications demo_world ! i) = False} = 1"
  using badge_shows_unread_count [of demo_world 1] badge_shows_unread_count [of initial_world 0]
  by (simp add: unreadCount_def demo_world_def demo_notifications_def initial_world_def)

subsection \<open>Marking a notification read\<close>

text \<open>
  Claim C3. The mark-read action issues exactly one request that is not a GET: the
  PUT to the read address of the notification id it was called with (the other
  request it may issue is the reload of the list). The page wires the action to the
  button of a notification, and renders that button only on the notifications tab and
  only for a notification of the list whose \<^verbatim>\<open>read\<close> flag is false.
\<close>

theorem mark_read_sends_one_update:
  "filter (\<lambda>r. r_method r \<noteq> GET) (issued (markNotificationRead env notificationId) w)
     = [\<lparr>r_method = PUT,
         r_url = API_BASE_URL env @ js ''/api/notifications/'' @ notificationId @ js ''/read'',
         r_headers = [], r_body = None\<rparr>]
   \<and> handle env (ClickMarkRead notificationId) = markNotificationRead env notificationId
   \<and> (offered w (ClickMarkRead notificationId) \<longrightarrow>
        activeTab w = notifications_tab
        \<and> (\<exists>n \<in> set (notifications w). n_id n = notificationId \<and> n_read n = False))"
  by (auto simp: issued_markNotificationRead read_request_def read_url_def get_request_def
      handle_def fun_eq_iff offered_def split: option.split)

theorem mark_read_sends_one_update_witness:
  "offered (demo_world\<lparr>activeTab := notifications_tab\<rparr>) (ClickMarkRead (js ''n1''))
   \<and> \<not> offered (demo_world\<lparr>activeTab := notifications_tab\<rparr>) (ClickMarkRead (js ''n2''))
   \<and> (\<exists>n \<in> set (notifications (demo_world\<lparr>activeTab := notifications_tab\<rparr>)).
         n_id n = js ''n1'' \<and> n_read n = False)
   \<and> filter (\<lambda>r. r_method r \<noteq> GET)
        (issued (markNotificationRead demo_env (js ''n1'')) (demo_world\<lparr>activeTab := notifications_tab\<rparr>))
      = [\<lparr>r_method = PUT, r_url = js ''http://localhost:8001/api/notifications/n1/read'',
          r_headers = [], r_body = None\<rparr>]"
proof -
  have o: "offered (demo_world\<lparr>activeTab := notifications_tab\<rparr>) (ClickMarkRead (js ''n1''))"
    by (simp add: offered_def demo_world_def demo_notifications_def js_def)
  have n: "\<not> offered (demo_world\<lparr>activeTab := notifications_tab\<rparr>) (ClickMarkRead (js ''n2''))"
    by (simp add: offered_def demo_world_def demo_notifications_def js_def)
  from mark_read_sends_one_update
         [of demo_env "js ''n1''" "demo_world\<lparr>activeTab := notifications_tab\<rparr>"] o n
  show ?thesis
    by (simp add: demo_env_def js_def)
qed

subsection \<open>The manual check\<close>

lemma fetchNotifications_succeeds:
  "notifications_endpoint env (trace w) (get_request (notifications_url env))
     = Some (Response b (Some data)) \<Longrightarrow>
   notifications (snd (fetchNotifications env w)) = data"
  by (simp add: fetchNotifications_def prog_defs setNotifications_def)

lemma fetchBookListings_succeeds:
  "listings_endpoint env (trace w) (get_request (listings_url env bookId))
     = Some (Response b (Some data)) \<Longrightarrow>
   listings (snd (fetchBookListings env bookId w)) = (listings w)(bookId \<mapsto> data)"
  by (simp add: fetchBookListings_def prog_defs setListings_def)

lemma fetchNotifications_frame: "books (snd (fetchNotifications env w)) = books w"
  by (simp add: fetchNotifications_def prog_defs setNotifications_def split: option.split)

lemma fetchBookListings_frame:
  "books (snd (fetchBookListings env bookId w)) = books w"
  "notifications (snd (fetchBookListings env bookId w)) = notifications w"
  by (simp_all add: fetchBookListings_def prog_defs setListings_def split: option.split)

lemma manualCheckBook_rejected:
  "command_endpoint env (trace w) (check_request env bookId) = None \<Longrightarrow>
   manualCheckBook env bookId w =
     (Inr (), w\<lparr>loading := False, trace := trace w @ [check_request env bookId],
                console := console w @ [(''Error checking book:'', NetworkError)]\<rparr>)"
  by (simp add: manualCheckBook_def prog_defs setter_defs)

lemma manualCheckBook_resolved:
  "command_endpoint env (trace w) (check_request env bookId) = Some response \<Longrightarrow>
   manualCheckBook env bookId w =
     (Inr (),
      (snd (fetchBookListings env bookId
         (snd (fetchNotifications env
            (snd (fetchBooks env
               (w\<lparr>loading := True, trace := trace w @ [check_request env bookId]\<rparr>)))))))
      \<lparr>loading := False\<rparr>)"
  by (simp add: manualCheckBook_def prog_defs setter_defs loader_simps)

text \<open>
  Claim C5, as the code has it. Every run of the manual check issues exactly one check
  request, a POST to the check address of the book's id, issues it first, and returns
  normally. When that request is rejected, the \<^verbatim>\<open>catch\<close> block logs the error on the
  console and the run ends there: one console line more, \<^verbatim>\<open>loading\<close> false again,
  every other state cell as it was, nothing else requested. When the request
  completes (the promise of \<^verbatim>\<open>fetch\<close> resolves, whatever the status), the three loaders
  run in order, the book list, the notification list, the listings of that book, and
  the world they leave is the world of the run, with \<^verbatim>\<open>loading\<close> false again: the
  books, the notifications and the book's listings are what the server answered to
  each reload, where that answer parses.
\<close>

theorem manualCheckBook_requests:
  "issued (manualCheckBook env bookId) w =
     \<lparr>r_method = POST, r_url = API_BASE_URL env @ js ''/api/books/'' @ bookId @ js ''/check'',
      r_headers = [], r_body = None\<rparr>
     # (if command_endpoint env (trace w) (check_request env bookId) = None then []
        else [get_request (API_BASE_URL env @ js ''/api/books''),
              get_request (API_BASE_URL env @ js ''/api/notifications''),
              get_request (API_BASE_URL env @ js ''/api/listings/'' @ bookId)])
   \<and> handle env (ClickCheck bookId) = manualCheckBook env bookId
   \<and> fst (manualCheckBook env bookId w) = Inr ()
   \<and> (command_endpoint env (trace w) (check_request env bookId) = None \<longrightarrow>
        snd (manualCheckBook env bookId w) =
          w\<lparr>loading := False, trace := trace w @ [check_request env bookId],
            console := console w @ [(''Error checking book:'', NetworkError)]\<rparr>)
   \<and> (command_endpoint env (trace w) (check_request env bookId) \<noteq> None \<longrightarrow>
        snd (manualCheckBook env bookId w) =
          (snd (fetchBookListings env bookId
             (snd (fetchNotifications env
                (snd (fetchBooks env
                   (w\<lparr>loading := True, trace := trace w @ [check_request env bookId]\<rparr>)))))))
          \<lparr>loading := False\<rparr>
        \<and> (\<forall>b data.
              books_endpoint env (trace w @ [check_request env bookId])
                (get_request (books_url env)) = Some (Response b (Some data)) \<longrightarrow>
              books (snd (manualCheckBook env bookId w)) = data)
        \<and> (\<forall>b data.
              notifications_endpoint env
                (trace w @ [check_request env bookId, get_request (books_url env)])
                (get_request (notifications_url env)) = Some (Response b (Some data)) \<longrightarrow>
              notifications (snd (manualCheckBook env bookId w)) = data)
        \<and> (\<forall>b data.
              listings_endpoint env
                (trace w @ [check_request env bookId, get_request (books_url env),
                            get_request (notifications_url env)])
                (get_request (listings_url env bookId)) = Some (Response b (Some data)) \<longrightarrow>
              listings (snd (manualCheckBook env bookId w)) bookId = Some data))"
proof -
  let ?c = "check_request env bookId"
  let ?w1 = "w\<lparr>loading := True, trace := trace w @ [?c]\<rparr>"
  let ?w2 = "snd (fetchBooks env ?w1)"
  let ?w3 = "snd (fetchNotifications env ?w2)"
  let ?w4 = "snd (fetchBookListings env bookId ?w3)"
  have req: "issued (manualCheckBook env bookId) w =
     \<lparr>r_method = POST, r_url = API_BASE_URL env @ js ''/api/books/'' @ bookId @ js ''/check'',
      r_headers = [], r_body = None\<rparr>
     # (if command_endpoint env (trace w) ?c = None then []
        else [get_request (API_BASE_URL env @ js ''/api/books''),
              get_request (API_BASE_URL env @ js ''/api/notifications''),
              get_request (API_BASE_URL env @ js ''/api/listings/'' @ bookId)])"
    by (auto simp: issued_manualCheckBook check_request_def check_url_def books_url_def
        notifications_url_def listings_url_def split: option.split)
  have wired: "handle env (ClickCheck bookId) = manualCheckBook env bookId"
    by (simp add: handle_def fun_eq_iff)
  have ret: "fst (manualCheckBook env bookId w) = Inr ()"
    using manualCheckBook_rejected [of env w bookId] manualCheckBook_resolved [of env w bookId]
    by (cases "command_endpoint env (trace w) ?c") simp_all
  have rej: "command_endpoint env (trace w) ?c = None \<Longrightarrow>
        snd (manualCheckBook env bookId w) =
          w\<lparr>loading := False, trace := trace w @ [?c],
            console := console w @ [(''Error checking book:'', NetworkError)]\<rparr>"
    by (simp add: manualCheckBook_rejected)
  have res: "snd (manualCheckBook env bookId w) = ?w4\<lparr>loading := False\<rparr>"
    if "command_endpoint env (trace w) ?c \<noteq> None"
    using that manualCheckBook_resolved [of env w bookId] by auto
  have t1: "trace ?w1 = trace w @ [?c]" by simp
  have t2: "trace ?w2 = trace w @ [?c, get_request (books_url env)]"
    by (simp add: fetchBooks_trace)
  have t3: "trace ?w3 = trace w @ [?c, get_request (books_url env),
                                   get_request (notifications_url env)]"
    by (simp add: fetchNotifications_trace t2)
  have b: "books (?w4\<lparr>loading := False\<rparr>) = data"
    if "books_endpoint env (trace w @ [?c]) (get_request (books_url env))
          = Some (Response b (Some data))" for b data
    using fetchBooks_succeeds [of env ?w1 b data] that
    by (simp add: fetchBookListings_frame fetchNotifications_frame)
  have n: "notifications (?w4\<lparr>loading := False\<rparr>) = data"
    if "notifications_endpoint env (trace w @ [?c, get_request (books_url env)])
          (get_request (notifications_url env)) = Some (Response b (Some data))" for b data
    using fetchNotifications_succeeds [of env ?w2 b data] that t2
    by (simp add: fetchBookListings_frame)
  have l: "listings (?w4\<lparr>loading := False\<rparr>) bookId = Some data"
    if "listings_endpoint env
          (trace w @ [?c, get_request (books_url env), get_request (notifications_url env)])
          (get_request (listings_url env bookId)) = Some (Response b (Some data))" for b data
    using fetchBookListings_succeeds [of env ?w3 bookId b data] that t3
    by simp
  from req wired ret rej res b n l show ?thesis
    by (intro conjI impI allI) simp_all
qed

theorem manualCheckBook_requests_witness:
  "issued (manualCheckBook demo_env (js ''b1'')) initial_world =
     [\<lparr>r_method = POST, r_url = js ''http://localhost:8001/api/books/b1/check'',
       r_headers = [], r_body = None\<rparr>,
      get_request (js ''http://localhost:8001/api/books''),
      get_request (js ''http://localhost:8001/api/notifications''),
      get_request (js ''http://localhost:8001/api/listings/b1'')]
   \<and> command_endpoint demo_env (trace initial_world) (check_request demo_env (js ''b1'')) \<noteq> None
   \<and> books (snd (manualCheckBook demo_env (js ''b1'') initial_world)) = [demo_book]
   \<and> notifications (snd (manualCheckBook demo_env (js ''b1'') initial_world)) = demo_notifications
   \<and> listings (snd (manualCheckBook demo_env (js ''b1'') initial_world)) (js ''b1'') = Some []
   \<and> command_endpoint offline_env (trace initial_world) (check_request offline_env (js ''b1'')) = None
   \<and> snd (manualCheckBook offline_env (js ''b1'') initial_world) =
        initial_world\<lparr>loading := False, trace := [check_request offline_env (js ''b1'')],
          console := [(''Error checking book:'', NetworkError)]\<rparr>"
proof -
  have d: "command_endpoint demo_env (trace initial_world) (check_request demo_env (js ''b1'')) \<noteq> None"
    by (simp add: demo_env_def)
  have o: "command_endpoint offline_env (trace initial_world) (check_request offline_env (js ''b1'')) = None"
    by (simp add: offline_env_def)
  have bk: "books_endpoint demo_env (trace initial_world @ [check_request demo_env (js ''b1'')])
                (get_request (books_url demo_env)) = Some (Response True (Some [demo_book]))"
    by (simp add: demo_env_def)
  have nt: "notifications_endpoint demo_env
                (trace initial_world @ [check_request demo_env (js ''b1''), get_request (books_url demo_env)])
                (get_request (notifications_url demo_env)) = Some (Response True (Some demo_notifications))"
    by (simp add: demo_env_def)
  have ls: "listings_endpoint demo_env
                (trace initial_world @ [check_request demo_env (js ''b1''), get_request (books_url demo_env),
                            get_request (notifications_url demo_env)])
                (get_request (listings_url demo_env (js ''b1''))) = Some (Response True (Some []))"
    by (simp add: demo_env_def)
  note t = manualCheckBook_requests [of demo_env "js ''b1''" initial_world]
  note u = manualCheckBook_requests [of offline_env "js ''b1''" initial_world]
  have 1: "issued (manualCheckBook demo_env (js ''b1'')) initial_world =
     [\<lparr>r_method = POST, r_url = js ''http://localhost:8001/api/books/b1/check'',
       r_headers = [], r_body = None\<rparr>,
      get_request (js ''http://localhost:8001/api/books''),
      get_request (js ''http://localhost:8001/api/notifications''),
      get_request (js ''http://localhost:8001/api/listings/b1'')]"
    using t d by (simp add: demo_env_def js_def)
  have 2: "books (snd (manualCheckBook demo_env (js ''b1'') initial_world)) = [demo_book]"
    using t d bk by blast
  have 3: "notifications (snd (manualCheckBook demo_env (js ''b1'') initial_world)) = demo_notifications"
    using t d nt by blast
  have 4: "listings (snd (manualCheckBook demo_env (js ''b1'') initial_world)) (js ''b1'') = Some []"
    using t d ls by blast
  have 5: "snd (manualCheckBook offline_env (js ''b1'') initial_world) =
        initial_world\<lparr>loading := False, trace := [check_request offline_env (js ''b1'')],
          console := [(''Error checking book:'', NetworkError)]\<rparr>"
    using u o by (simp add: initial_world_def)
  from 1 2 3 4 5 d o show ?thesis by simp
qed

text \<open>
  Claim C5 as stated, for every run, fails where the server is out of reach: the check
  request is the only request of the run, and the book list, the notification list
  and the listings are not reloaded.
\<close>

theorem manualCheckBook_no_refresh_counterexample:
  "issued (manualCheckBook offline_env (js ''b1'')) demo_world =
     [\<lparr>r_method = POST, r_url = js ''http://localhost:8001/api/books/b1/check'',
       r_headers = [], r_body = None\<rparr>]
   \<and> get_request (books_url offline_env)
        \<notin> set (issued (manualCheckBook offline_env (js ''b1'')) demo_world)
   \<and> get_request (notifications_url offline_env)
        \<notin> set (issued (manualCheckBook offline_env (js ''b1'')) demo_world)
   \<and> get_request (listings_url offline_env (js ''b1''))
        \<notin> set (issued (manualCheckBook offline_env (js ''b1'')) demo_world)"
  by (simp add: issued_manualCheckBook check_request_def check_url_def offline_env_def js_def
      get_request_def)

subsection \<open>Deleting a book\<close>

text \<open>
  Claim C7. When the user declines the confirmation, the delete action returns with
  the world as it was: no request, the same book list. When the user confirms, the
  first request is the DELETE to the address of the book's id, and whatever follows is
  a GET. The page wires the action to the delete button.
\<close>

theorem deleteBook_only_on_confirmation:
  "(\<not> window_confirm env \<longrightarrow>
      deleteBook env bookId w = (Inr (), w) \<and> issued (deleteBook env bookId) w = [])
   \<and> (window_confirm env \<longrightarrow>
        (\<exists>rest. issued (deleteBook env bookId) w =
           \<lparr>r_method = DELETE, r_url = API_BASE_URL env @ js ''/api/books/'' @ bookId,
            r_headers = [], r_body = None\<rparr> # rest
           \<and> list_all (\<lambda>r. r_method r = GET) rest))
   \<and> handle env (ClickDelete bookId) = deleteBook env bookId"
proof -
  have "\<not> window_confirm env \<Longrightarrow> deleteBook env bookId w = (Inr (), w)"
    by (simp add: deleteBook_def return_def)
  moreover have "\<not> window_confirm env \<Longrightarrow> issued (deleteBook env bookId) w = []"
    by (simp add: issued_deleteBook)
  moreover have "window_confirm env \<Longrightarrow>
        (\<exists>rest. issued (deleteBook env bookId) w =
           \<lparr>r_method = DELETE, r_url = API_BASE_URL env @ js ''/api/books/'' @ bookId,
            r_headers = [], r_body = None\<rparr> # rest
           \<and> list_all (\<lambda>r. r_method r = GET) rest)"
    by (simp add: issued_deleteBook deleteBook_request_def book_url_def get_request_def
        split: option.split)
  moreover have "handle env (ClickDelete bookId) = deleteBook env bookId"
    by (simp add: handle_def fun_eq_iff)
  ultimately show ?thesis by blast
qed

theorem deleteBook_only_on_confirmation_witness:
  "\<not> window_confirm (demo_env\<lparr>window_confirm := False\<rparr>)
   \<and> deleteBook (demo_env\<lparr>window_confirm := False\<rparr>) (js ''b1'') demo_world = (Inr (), demo_world)
   \<and> issued (deleteBook (demo_env\<lparr>window_confirm := False\<rparr>) (js ''b1'')) demo_world = []
   \<and> window_confirm demo_env
   \<and> (\<exists>rest. issued (deleteBook demo_env (js ''b1'')) demo_world =
           \<lparr>r_method = DELETE, r_url = js ''http://localhost:8001/api/books/b1'',
            r_headers = [], r_body = None\<rparr> # rest)"
  using deleteBook_only_on_confirmation [of "demo_env\<lparr>window_confirm := False\<rparr>" "js ''b1''" demo_world]
    deleteBook_only_on_confirmation [of demo_env "js ''b1''" demo_world]
  by (auto simp add: demo_env_def js_def)

subsection \<open>Adding a book\<close>

lemma sitesToTrack_names: "map s_name (sitesToTrack nb) = map fst (filter snd (nb_sites nb))"
  by (simp add: sitesToTrack_def case_prod_unfold comp_def)

lemma sitesToTrack_fresh:
  "s \<in> set (sitesToTrack nb) \<Longrightarrow>
   s_last_check s = None \<and> s_listings_found s = 0 \<and> s_url s = s_name s @ js ''.com''"
  by (auto simp: sitesToTrack_def)

text \<open>
  Claim C4. Every run of the add-book action issues, first, a POST to the book
  collection whose body is \<^verbatim>\<open>bookData\<close>: the title and the author of the form, one
  site per checked entry of the form and no other (in the form's order, each with
  \<^verbatim>\<open>last_check\<close> null and \<^verbatim>\<open>listings_found\<close> zero), the form's custom sites and search
  flag, and \<^verbatim>\<open>is_active\<close> true. Whatever follows is a GET. The page wires the action
  to the form's submission.
\<close>

theorem addBook_sends_form:
  "(\<exists>rest. issued (addBook env) w =
       \<lparr>r_method = POST, r_url = API_BASE_URL env @ js ''/api/books'',
        r_headers = [(''Content-Type'', ''application/json'')],
        r_body = Some (BookData (bookData (newBook w)))\<rparr> # rest
       \<and> list_all (\<lambda>r. r_method r = GET) rest)
   \<and> handle env SubmitAddBook = addBook env
   \<and> bd_title (bookData (newBook w)) = nb_title (newBook w)
   \<and> bd_author (bookData (newBook w)) = nb_author (newBook w)
   \<and> map s_name (bd_sites (bookData (newBook w))) = map fst (filter snd (nb_sites (newBook w)))
   \<and> (\<forall>s \<in> set (bd_sites (bookData (newBook w))).
         s_last_check s = None \<and> s_listings_found s = 0)
   \<and> bd_custom_sites (bookData (newBook w)) = nb_custom_sites (newBook w)
   \<and> bd_enable_google_search (bookData (newBook w)) = nb_enable_google_search (newBook w)
   \<and> bd_is_active (bookData (newBook w)) = True"
proof -
  have "\<exists>rest. issued (addBook env) w =
       \<lparr>r_method = POST, r_url = API_BASE_URL env @ js ''/api/books'',
        r_headers = [(''Content-Type'', ''application/json'')],
        r_body = Some (BookData (bookData (newBook w)))\<rparr> # rest
       \<and> list_all (\<lambda>r. r_method r = GET) rest"
    by (simp add: issued_addBook addBook_request_def books_url_def json_headers_def
        get_request_def split: option.split)
  moreover have "handle env SubmitAddBook = addBook env"
    by (simp add: handle_def fun_eq_iff)
  moreover have "\<forall>s \<in> set (bd_sites (bookData (newBook w))).
         s_last_check s = None \<and> s_listings_found s = 0"
    using sitesToTrack_fresh by (simp add: bookData_def)
  ultimately show ?thesis
    by (simp add: bookData_def sitesToTrack_names)
qed

theorem addBook_sends_form_witness:
  "issued (addBook demo_env) (initial_world\<lparr>newBook := demo_form\<rparr>) =
     [\<lparr>r_method = POST, r_url = js ''http://localhost:8001/api/books'',
       r_headers = [(''Content-Type'', ''application/json'')],
       r_body = Some (BookData
         \<lparr>bd_title = js ''Tutunamayanlar'', bd_author = js ''Oguz Atay'',
          bd_sites =
            [\<lparr>s_name = js ''nadirkitap'', s_url = js ''nadirkitap.com'', s_last_check = None,
              s_listings_found = 0\<rparr>,
             \<lparr>s_name = js ''halkkitabevi'', s_url = js ''halkkitabevi.com'', s_last_check = None,
              s_listings_found = 0\<rparr>],
          bd_custom_sites = [], bd_enable_google_search = True, bd_is_active = True\<rparr>)\<rparr>,
      get_request (js ''http://localhost:8001/api/books'')]
   \<and> map s_name (bd_sites (bookData demo_form)) = [js ''nadirkitap'', js ''halkkitabevi'']"
  using addBook_sends_form [of demo_env "initial_world\<lparr>newBook := demo_form\<rparr>"]
  by (simp add: issued_addBook addBook_request_def books_url_def json_headers_def demo_env_def
      demo_form_def bookData_def sitesToTrack_def js_def)

subsection \<open>Custom sites\<close>

lemma dropWhile_all: "(\<forall>x \<in> set (dropWhile P xs). P x) \<longleftrightarrow> (\<forall>x \<in> set xs. P x)"
  by (induction xs) auto

lemma trim_empty_iff: "trim s = [] \<longleftrightarrow> (\<forall>c \<in> set s. is_whitespace c)"
  by (simp add: trim_def dropWhile_all)

text \<open>
  Claim C8. When the input is empty after trimming, which is when every code unit of
  it is white space, the add-custom-site action returns with the world as it was and
  no request. Otherwise its first request is a POST to the add-site address of the
  book with the input, as entered, for \<^verbatim>\<open>url\<close>. The first request of the
  remove-custom-site action is a DELETE to the remove-site address of the book with
  the site's URL for \<^verbatim>\<open>url\<close>. Whatever follows either is a GET.
\<close>

theorem custom_site_requests:
  "(trim (customSiteInput w) = [] \<longrightarrow>
      addCustomSite env bookId w = (Inr (), w) \<and> issued (addCustomSite env bookId) w = [])
   \<and> (trim (customSiteInput w) \<noteq> [] \<longrightarrow>
        (\<exists>rest. issued (addCustomSite env bookId) w =
           \<lparr>r_method = POST,
            r_url = API_BASE_URL env @ js ''/api/books/'' @ bookId @ js ''/add-site'',
            r_headers = [(''Content-Type'', ''application/json'')],
            r_body = Some (UrlData (customSiteInput w))\<rparr> # rest
           \<and> list_all (\<lambda>r. r_method r = GET) rest))
   \<and> (trim (customSiteInput w) = [] \<longleftrightarrow> (\<forall>c \<in> set (customSiteInput w). is_whitespace c))
   \<and> (\<exists>rest. issued (removeCustomSite env bookId siteUrl) w =
           \<lparr>r_method = DELETE,
            r_url = API_BASE_URL env @ js ''/api/books/'' @ bookId @ js ''/remove-site'',
            r_headers = [(''Content-Type'', ''application/json'')],
            r_body = Some (UrlData siteUrl)\<rparr> # rest
           \<and> list_all (\<lambda>r. r_method r = GET) rest)"
proof -
  have "trim (customSiteInput w) = [] \<Longrightarrow> addCustomSite env bookId w = (Inr (), w)"
    by (simp add: addCustomSite_def return_def)
  moreover have "trim (customSiteInput w) = [] \<Longrightarrow> issued (addCustomSite env bookId) w = []"
    by (simp add: issued_addCustomSite)
  moreover have "trim (customSiteInput w) \<noteq> [] \<Longrightarrow>
        (\<exists>rest. issued (addCustomSite env bookId) w =
           \<lparr>r_method = POST,
            r_url = API_BASE_URL env @ js ''/api/books/'' @ bookId @ js ''/add-site'',
            r_headers = [(''Content-Type'', ''application/json'')],
            r_body = Some (UrlData (customSiteInput w))\<rparr> # rest
           \<and> list_all (\<lambda>r. r_method r = GET) rest)"
    by (simp add: issued_addCustomSite addCustomSite_request_def add_site_url_def
        json_headers_def get_request_def split: option.split)
  moreover have "\<exists>rest. issued (removeCustomSite env bookId siteUrl) w =
           \<lparr>r_method = DELETE,
            r_url = API_BASE_URL env @ js ''/api/books/'' @ bookId @ js ''/remove-site'',
            r_headers = [(''Content-Type'', ''application/json'')],
            r_body = Some (UrlData siteUrl)\<rparr> # rest
           \<and> list_all (\<lambda>r. r_method r = GET) rest"
    by (simp add: issued_removeCustomSite removeCustomSite_request_def remove_site_url_def
        json_headers_def get_request_def split: option.split)
  ultimately show ?thesis
    using trim_empty_iff [of "customSiteInput w"] by blast
qed

theorem custom_site_requests_witness:
  "trim (customSiteInput (demo_world\<lparr>customSiteInput := js ''  ''\<rparr>)) = []
   \<and> issued (addCustomSite demo_env (js ''b1'')) (demo_world\<lparr>customSiteInput := js ''  ''\<rparr>) = []
   \<and> trim (customSiteInput (demo_world\<lparr>customSiteInput := js '' sahaf.example ''\<rparr>)) \<noteq> []
   \<and> (\<exists>rest. issued (addCustomSite demo_env (js ''b1''))
                (demo_world\<lparr>customSiteInput := js '' sahaf.example ''\<rparr>) =
           \<lparr>r_method = POST, r_url = js ''http://localhost:8001/api/books/b1/add-site'',
            r_headers = [(''Content-Type'', ''application/json'')],
            r_body = Some (UrlData (js '' sahaf.example ''))\<rparr> # rest)"
proof -
  have b: "trim (customSiteInput (demo_world\<lparr>customSiteInput := js ''  ''\<rparr>)) = []"
    by (simp add: trim_def is_whitespace_def js_def)
  have n: "trim (customSiteInput (demo_world\<lparr>customSiteInput := js '' sahaf.example ''\<rparr>)) \<noteq> []"
    by (simp add: trim_def is_whitespace_def js_def)
  from b n custom_site_requests [of "demo_world\<lparr>customSiteInput := js ''  ''\<rparr>" demo_env "js ''b1''"]
    custom_site_requests [of "demo_world\<lparr>customSiteInput := js '' sahaf.example ''\<rparr>" demo_env "js ''b1''"]
  show ?thesis
    by (auto simp add: demo_env_def js_def)
qed

subsection \<open>Changing the check interval\<close>

lemma interval_options_offered:
  "offered w (ChangeInterval v) \<longleftrightarrow> activeTab w = settings_tab \<and> v \<in> {1, 3, 6, 12, 24}"
  by (simp add: offered_def interval_options_def)

lemma interval_change_throws:
  "handle env (ChangeInterval v) w = (Inl (ReferenceError ''updateSettings''), w)"
  by (simp add: handle_def select_onChange_def throw_def)

text \<open>
  Claim C1, at the input where it fails. On the settings tab the page offers the value
  3 of the select element. Picking it runs the change handler of line 496, which ends
  in the \<^verbatim>\<open>ReferenceError\<close> of the undeclared \<^verbatim>\<open>updateSettings\<close>: the world is what it
  was, and no request has been issued, so no settings update carries the value.
\<close>

theorem interval_change_sends_nothing:
  "offered (initial_world\<lparr>activeTab := settings_tab\<rparr>) (ChangeInterval 3)
   \<and> handle demo_env (ChangeInterval 3) (initial_world\<lparr>activeTab := settings_tab\<rparr>)
       = (Inl (ReferenceError ''updateSettings''), initial_world\<lparr>activeTab := settings_tab\<rparr>)
   \<and> issued (handle demo_env (ChangeInterval 3)) (initial_world\<lparr>activeTab := settings_tab\<rparr>) = []"
  by (simp add: offered_def interval_options_def handle_def select_onChange_def throw_def
      issued_def)

subsection \<open>Reconciliation\<close>

lemma reconcile_each_keeps:
  "ts_fingerprints (st_site st)
     \<subseteq> ts_fingerprints (st_site (snd (reconcile_each fingerprint compose b st ls)))"
proof (induction ls arbitrary: st)
  case Nil
  show ?case by simp
next
  case (Cons l ls)
  show ?case
  proof (cases "fingerprint l \<in> ts_fingerprints (st_site st)")
    case True
    with Cons.IH [of st] show ?thesis by simp
  next
    case False
    let ?st = "\<lparr>st_site = (st_site st)\<lparr>ts_fingerprints :=
                   insert (fingerprint l) (ts_fingerprints (st_site st))\<rparr>,
                st_inbox = st_inbox st @ [new_notification compose b l]\<rparr>"
    from Cons.IH [of ?st] False show ?thesis
      by (auto split: prod.split)
  qed
qed

lemma reconcile_each_records:
  "fingerprint ` set ls
     \<subseteq> ts_fingerprints (st_site (snd (reconcile_each fingerprint compose b st ls)))"
proof (induction ls arbitrary: st)
  case Nil
  show ?case by simp
next
  case (Cons l ls)
  show ?case
  proof (cases "fingerprint l \<in> ts_fingerprints (st_site st)")
    case True
    with Cons.IH [of st] reconcile_each_keeps [of st fingerprint compose b ls]
    show ?thesis by auto
  next
    case False
    let ?st = "\<lparr>st_site = (st_site st)\<lparr>ts_fingerprints :=
                   insert (fingerprint l) (ts_fingerprints (st_site st))\<rparr>,
                st_inbox = st_inbox st @ [new_notification compose b l]\<rparr>"
    from Cons.IH [of ?st] reconcile_each_keeps [of ?st fingerprint compose b ls] False
    show ?thesis
      by (auto split: prod.split)
  qed
qed

lemma reconcile_each_seen:
  "fingerprint ` set ls \<subseteq> ts_fingerprints (st_site st) \<Longrightarrow>
   reconcile_each fingerprint compose b st ls = ([], st)"
  by (induction ls) auto

lemma reconcile_fingerprints:
  "ts_fingerprints (st_site (snd (reconcile fingerprint compose b st ls)))
     = ts_fingerprints (st_site (snd (reconcile_each fingerprint compose b st ls)))"
  by (simp add: reconcile_def split: prod.split)

text \<open>
  Claim C2. Reconciling the same batch of listings a second time, on the site and the
  inbox the first reconciliation left, creates no notification and leaves the site
  and the inbox as they are: every notification of the batch was created by the first
  call.
\<close>

theorem reconcile_idempotent:
  "fst (reconcile fingerprint compose b (snd (reconcile fingerprint compose b st ls)) ls) = []
   \<and> snd (reconcile fingerprint compose b (snd (reconcile fingerprint compose b st ls)) ls)
       = snd (reconcile fingerprint compose b st ls)"
proof -
  let ?st = "snd (reconcile fingerprint compose b st ls)"
  have "fingerprint ` set ls \<subseteq> ts_fingerprints (st_site ?st)"
    using reconcile_each_records [of fingerprint ls compose b st]
    by (simp add: reconcile_fingerprints)
  then have "reconcile_each fingerprint compose b ?st ls = ([], ?st)"
    by (rule reconcile_each_seen)
  then show ?thesis
    by (simp add: reconcile_def)
qed

theorem reconcile_idempotent_witness:
  "length (fst (reconcile rl_url (\<lambda>b l. tb_title b @ rl_title l) demo_tracked_book demo_store demo_listings)) = 3
   \<and> ts_listings_found (st_site (snd (reconcile rl_url (\<lambda>b l. tb_title b @ rl_title l)
        demo_tracked_book demo_store demo_listings))) = 3
   \<and> fst (reconcile rl_url (\<lambda>b l. tb_title b @ rl_title l) demo_tracked_book
        (snd (reconcile rl_url (\<lambda>b l. tb_title b @ rl_title l) demo_tracked_book demo_store demo_listings))
        demo_listings) = []"
  using reconcile_idempotent [of rl_url "\<lambda>b l. tb_title b @ rl_title l" demo_tracked_book demo_store demo_listings]
  by (simp add: reconcile_def demo_listings_def demo_store_def)

end
